theory Spec2Isabelle
  imports Main "HOL-Library.AList" "HOL-Library.Sublist"
begin

section \<open>Data model\<close>

text \<open>
  Errors are values. \<open>Error\<close> is JavaScript's \<^verbatim>\<open>new Error(message)\<close>, \<open>AssertionError\<close> is
  what node's \<^verbatim>\<open>assert(cond, message)\<close> throws when \<open>cond\<close> is falsy. The last two are the
  failures of the schema library (\<^verbatim>\<open>makeExecutableSchema\<close>, \<^verbatim>\<open>mergeSchemas\<close>), named as
  in the error taxonomy of the specification.
\<close>

datatype js_error =
    Error string
  | AssertionError string
  | SchemaParseError string
  | CompositionConflictError string

text \<open>The transport handles: \<^verbatim>\<open>new HttpLink({ uri, fetch })\<close> and \<^verbatim>\<open>createMonolithExecutor(url)\<close>.\<close>

datatype link = HttpLink "string option"

datatype executor = MonolithExecutor string

text \<open>
  How a field is executed: by the default resolver, by a resolver function of a local
  package (named by an identifier), by delegation through a link to the monolith, or by
  calling the remote function that an \<^verbatim>\<open>@function(name: ...)\<close> directive names.
\<close>

datatype resolver =
    DefaultResolver
  | LocalFunction string
  | RemoteDelegate link
  | ExternalFunctionCall string

record field_def =
  fieldType :: string
  functionDirective :: "string option"
  resolve :: resolver

datatype type_kind =
  ScalarType | ObjectType | InterfaceType | UnionType | EnumType | InputObjectType

record named_type =
  kind :: type_kind
  typeFields :: "(string \<times> field_def) list"

text \<open>
  An executable schema (\<^verbatim>\<open>GraphQLSchema\<close>): its type map, keyed by type name, and the names
  of the directives it declares.
\<close>

record gql_schema =
  typeMap :: "(string \<times> named_type) list"
  directives :: "string list"

definition getType :: "gql_schema \<Rightarrow> string \<Rightarrow> named_type option" where
  "getType s n = map_of (typeMap s) n"

definition isInputObjectType :: "named_type option \<Rightarrow> bool" where
  "isInputObjectType t = (case t of None \<Rightarrow> False | Some nt \<Rightarrow> kind nt = InputObjectType)"

definition getFields :: "named_type option \<Rightarrow> (string \<times> field_def) list" where
  "getFields t = (case t of None \<Rightarrow> [] | Some nt \<Rightarrow> typeFields nt)"

definition hasOwnProperty :: "(string \<times> 'a) list \<Rightarrow> string \<Rightarrow> bool" where
  "hasOwnProperty obj k = (map_of obj k \<noteq> None)"

definition field_of :: "gql_schema \<Rightarrow> string \<Rightarrow> string \<Rightarrow> field_def option" where
  "field_of s t f = (case getType s t of None \<Rightarrow> None | Some nt \<Rightarrow> map_of (typeFields nt) f)"

section \<open>The monolith proxy builder (framework/schema/monolith-proxy/index.ts)\<close>

datatype log_entry = Info string | ErrorLog string

record monolith_proxy =
  proxy_schema :: gql_schema
  proxy_executor :: executor

definition createMonolithExecutor :: "string \<Rightarrow> executor" where
  "createMonolithExecutor monolithURL = MonolithExecutor monolithURL"

text \<open>
  \<^verbatim>\<open>createMonolithProxySchema({ config, logger })\<close>. The configuration is the function
  \<open>config\<close> from a key to the string \<^verbatim>\<open>config.get(key).asString()\<close> returns; the network is
  the function \<open>introspectSchema\<close>, which fails with the error it would throw. The result
  is the lines handed to the logger and either the thrown error or the returned object.
\<close>

definition createMonolithProxySchema ::
  "(executor \<Rightarrow> js_error + gql_schema) \<Rightarrow> (string \<Rightarrow> string) \<Rightarrow>
     log_entry list \<times> (js_error + monolith_proxy)" where
  \<open>createMonolithProxySchema introspectSchema config =
     (let monolithURL = config ''MONOLITH_GRAPHQL_URL'';
          executor = createMonolithExecutor monolithURL;
          fetching = Info (''Fetching monolith schema from '' @ monolithURL)
      in case introspectSchema executor of
           Inl err \<Rightarrow>
             ([fetching, ErrorLog (''Failed introspecting monolith schema from '' @ monolithURL)],
              Inl (Error (''Failed introspecting remote Magento schema at "'' @ monolithURL @ ''". '' @
                          ''Make sure that the MONOLITH_GRAPHQL_URL configuration is set to '' @
                          ''the correct value for your Magento instance'')))
         | Inr schema \<Rightarrow>
             (let attrFilterInput = getType schema ''ProductAttributeFilterInput'' in
              if \<not> isInputObjectType attrFilterInput then
                ([fetching],
                 Inl (AssertionError ''Could not find required type "ProductAttributeFilterInput" in PHP application schema. Make sure your Magento store is running version 2.3.4 or later.''))
              else
                (let attrFilterFields = getFields attrFilterInput in
                 if \<not> hasOwnProperty attrFilterFields ''sku'' then
                   ([fetching],
                    Inl (AssertionError ''Could not find required field "ProductAttributeFilterInput.sku" in PHP application schema. Make sure your store has the "sku" attribute exposed for filtering: https://devdocs.magento.com/guides/v2.4/graphql/custom-filters.html''))
                 else
                   ([fetching], Inr \<lparr>proxy_schema = schema, proxy_executor = executor\<rparr>))))\<close>

section \<open>Schema documents and the schema library\<close>

text \<open>
  A parsed schema document (\<^verbatim>\<open>DocumentNode\<close>, what \<^verbatim>\<open>gql\<close> returns) is a sequence of
  definitions. A field of a type definition carries its type and, when it is annotated
  \<^verbatim>\<open>@function(name: "n")\<close>, the directive's argument.
\<close>

record field_node =
  fieldName :: string
  typeName :: string
  functionName :: "string option"

datatype definition_node =
    TypeDefinition type_kind string "field_node list"
  | TypeExtension string "field_node list"
  | DirectiveDefinition string

type_synonym document = "definition_node list"

text \<open>A resolver map: the handler of a local package for a (type name, field name).\<close>

type_synonym resolver_map = "((string \<times> string) \<times> string) list"

definition field_of_node :: "field_node \<Rightarrow> string \<times> field_def" where
  "field_of_node fn =
     (fieldName fn,
      \<lparr>fieldType = typeName fn, functionDirective = functionName fn, resolve = DefaultResolver\<rparr>)"

text \<open>
  Modelled from the spec: \<^verbatim>\<open>makeExecutableSchema\<close> is imported from the package
  \<^verbatim>\<open>apollo-server\<close>; no code of it is in the repository. The specification says of it only
  that declarations which are not valid schema syntax make the step fail (section 4.1, 4.4,
  \<open>SchemaParseError\<close>) and that extensions refer to types declared before them. The model
  builds the type map of the concatenated documents in two passes, definitions first and
  extensions second, and refuses, as the schema language does, a type or directive defined
  twice, a field declared twice in one type, and an extension of an undefined type or of a
  field the type already has. The resolver map is attached last.
\<close>

fun defineTypes :: "definition_node list \<Rightarrow> gql_schema \<Rightarrow> js_error + gql_schema" where
  "defineTypes [] s = Inr s"
| "defineTypes (TypeDefinition k n fs # ds) s =
     (if getType s n \<noteq> None \<or> \<not> distinct (map fieldName fs) then Inl (SchemaParseError n)
      else defineTypes ds
             (s\<lparr>typeMap := typeMap s @ [(n, \<lparr>kind = k, typeFields = map field_of_node fs\<rparr>)]\<rparr>))"
| "defineTypes (TypeExtension n fs # ds) s = defineTypes ds s"
| "defineTypes (DirectiveDefinition d # ds) s =
     (if d \<in> set (directives s) then Inl (SchemaParseError d)
      else defineTypes ds (s\<lparr>directives := directives s @ [d]\<rparr>))"

fun extendTypes :: "definition_node list \<Rightarrow> gql_schema \<Rightarrow> js_error + gql_schema" where
  "extendTypes [] s = Inr s"
| "extendTypes (TypeExtension n fs # ds) s =
     (case getType s n of
        None \<Rightarrow> Inl (SchemaParseError n)
      | Some nt \<Rightarrow>
          if \<not> distinct (map fieldName fs)
             \<or> list_ex (\<lambda>fn. hasOwnProperty (typeFields nt) (fieldName fn)) fs
          then Inl (SchemaParseError n)
          else extendTypes ds
                 (s\<lparr>typeMap :=
                      AList.update n (nt\<lparr>typeFields := typeFields nt @ map field_of_node fs\<rparr>)
                        (typeMap s)\<rparr>))"
| "extendTypes (TypeDefinition k n fs # ds) s = extendTypes ds s"
| "extendTypes (DirectiveDefinition d # ds) s = extendTypes ds s"

definition addResolver :: "resolver_map \<Rightarrow> string \<Rightarrow> string \<times> field_def \<Rightarrow> string \<times> field_def" where
  "addResolver rs t fd =
     (case map_of rs (t, fst fd) of
        None \<Rightarrow> fd
      | Some handler \<Rightarrow> (fst fd, (snd fd)\<lparr>resolve := LocalFunction handler\<rparr>))"

definition addResolvers :: "resolver_map \<Rightarrow> gql_schema \<Rightarrow> gql_schema" where
  "addResolvers rs s =
     s\<lparr>typeMap :=
         map (\<lambda>tn. (fst tn, (snd tn)\<lparr>typeFields := map (addResolver rs (fst tn)) (typeFields (snd tn))\<rparr>))
           (typeMap s)\<rparr>"

definition makeExecutableSchema :: "document list \<Rightarrow> resolver_map \<Rightarrow> js_error + gql_schema" where
  "makeExecutableSchema tds rs =
     (let defs = concat tds in
      case defineTypes defs \<lparr>typeMap = [], directives = []\<rparr> of
        Inl e \<Rightarrow> Inl e
      | Inr s \<Rightarrow>
          (case extendTypes defs s of
             Inl e \<Rightarrow> Inl e
           | Inr s' \<Rightarrow> Inr (addResolvers rs s')))"

text \<open>
  Modelled from the spec: \<^verbatim>\<open>makeRemoteExecutableSchema\<close> is imported from \<^verbatim>\<open>apollo-server\<close>.
  Section 4.2, step 4: the fragment's every field resolver is a pass-through delegate that
  forwards the request through the link.
\<close>

definition makeRemoteExecutableSchema :: "gql_schema \<Rightarrow> link \<Rightarrow> gql_schema" where
  "makeRemoteExecutableSchema s l =
     s\<lparr>typeMap :=
         map (\<lambda>tn. (fst tn,
                    (snd tn)\<lparr>typeFields :=
                       map (\<lambda>fd. (fst fd, (snd fd)\<lparr>resolve := RemoteDelegate l\<rparr>)) (typeFields (snd tn))\<rparr>))
           (typeMap s)\<rparr>"

text \<open>
  Modelled from the spec: \<^verbatim>\<open>mergeSchemas\<close> is imported from \<^verbatim>\<open>apollo-server\<close>. Section 4.1:
  the input must be non-empty and its first element is the base; each later fragment is
  layered on the accumulated result in array order; an identical (type name, field name) is
  replaced, new types and fields are added; a type redefined with an incompatible shape is
  a fatal \<open>CompositionConflictError\<close>. What happens on an empty input is not specified; the
  model refuses it.
\<close>

definition conflicts :: "gql_schema \<Rightarrow> gql_schema \<Rightarrow> bool" where
  "conflicts acc nxt =
     list_ex (\<lambda>tn. case getType acc (fst tn) of
                      None \<Rightarrow> False
                    | Some old \<Rightarrow> kind old \<noteq> kind (snd tn))
       (typeMap nxt)"

definition mergeType :: "named_type option \<Rightarrow> named_type \<Rightarrow> named_type" where
  "mergeType old nt =
     (case old of
        None \<Rightarrow> nt
      | Some ot \<Rightarrow> \<lparr>kind = kind nt, typeFields = AList.merge (typeFields ot) (typeFields nt)\<rparr>)"

definition layer :: "gql_schema \<Rightarrow> gql_schema \<Rightarrow> js_error + gql_schema" where
  "layer acc nxt =
     (if conflicts acc nxt then Inl (CompositionConflictError ''incompatible type redefinition'')
      else Inr \<lparr>typeMap =
                  AList.merge (typeMap acc)
                    (map (\<lambda>tn. (fst tn, mergeType (getType acc (fst tn)) (snd tn))) (typeMap nxt)),
                directives = List.union (directives acc) (directives nxt)\<rparr>)"

fun compose :: "gql_schema \<Rightarrow> gql_schema list \<Rightarrow> js_error + gql_schema" where
  "compose acc [] = Inr acc"
| "compose acc (f # fs) = (case layer acc f of Inl e \<Rightarrow> Inl e | Inr acc' \<Rightarrow> compose acc' fs)"

definition mergeSchemas :: "gql_schema list \<Rightarrow> js_error + gql_schema" where
  "mergeSchemas schemas =
     (case schemas of
        [] \<Rightarrow> Inl (Error ''mergeSchemas: no schemas'')
      | base # rest \<Rightarrow> compose base rest)"

section \<open>The function directive (FunctionDirectiveVisitor)\<close>

text \<open>
  Modelled from the spec: \<^verbatim>\<open>prependPkgNameToFunctionDirectives\<close> is exported by the module
  \<^verbatim>\<open>./FunctionDirectiveVisitor\<close> of this repository, which is not among the sources. Section
  4.3: every occurrence of the function directive has its name argument rewritten from
  \<open>name\<close> to \<open>packageNamespace + separator + name\<close>. The separator is a parameter.
\<close>

definition prependPkgName_field :: "string \<Rightarrow> string \<Rightarrow> field_node \<Rightarrow> field_node" where
  "prependPkgName_field sep pkgName fn =
     fn\<lparr>functionName := map_option (\<lambda>n. pkgName @ sep @ n) (functionName fn)\<rparr>"

fun prependPkgName_definition :: "string \<Rightarrow> string \<Rightarrow> definition_node \<Rightarrow> definition_node" where
  "prependPkgName_definition sep pkgName (TypeDefinition k n fs) =
     TypeDefinition k n (map (prependPkgName_field sep pkgName) fs)"
| "prependPkgName_definition sep pkgName (TypeExtension n fs) =
     TypeExtension n (map (prependPkgName_field sep pkgName) fs)"
| "prependPkgName_definition sep pkgName (DirectiveDefinition d) = DirectiveDefinition d"

definition prependPkgNameToFunctionDirectives :: "string \<Rightarrow> document \<Rightarrow> string \<Rightarrow> document" where
  "prependPkgNameToFunctionDirectives sep schemaDoc pkgName =
     map (prependPkgName_definition sep pkgName) schemaDoc"

text \<open>
  Modelled from the spec: \<^verbatim>\<open>FunctionDirectiveVisitor\<close> is exported by the same missing module.
  Section 4.5: every field that carries the function directive is bound to a resolver that
  invokes the remote function the directive names; other fields are left as they are.
\<close>

definition bindFunction :: "field_def \<Rightarrow> field_def" where
  "bindFunction d =
     (case functionDirective d of
        None \<Rightarrow> d
      | Some n \<Rightarrow> d\<lparr>resolve := ExternalFunctionCall n\<rparr>)"

definition visitSchemaDirectives :: "gql_schema \<Rightarrow> gql_schema" where
  "visitSchemaDirectives s =
     s\<lparr>typeMap :=
         map (\<lambda>tn. (fst tn,
                    (snd tn)\<lparr>typeFields := map (\<lambda>fd. (fst fd, bindFunction (snd fd))) (typeFields (snd tn))\<rparr>))
           (typeMap s)\<rparr>"

section \<open>The server entry point (index.ts)\<close>

text \<open>
  Everything \<^verbatim>\<open>main\<close> reads from outside is a field of the record \<open>world\<close>: the
  environment behind \<^verbatim>\<open>readVar\<close>, what \<^verbatim>\<open>mergePackageConfigs(await getAllPackages(...))\<close>
  returns or throws, what \<^verbatim>\<open>getAllRemoteGQLSchemas(namespace)\<close> returns or throws, the
  documents the returned descriptors refer to, the outcome of introspecting through a link,
  the separator of the directive rewriter, and the outcome of \<^verbatim>\<open>server.listen()\<close>.

  A remote package descriptor holds a reference to its document, not the document: the
  rewriter changes a document in place, so two descriptors that refer to one document see
  each other's change. \<open>documents\<close> is the store from references to documents.
\<close>

record package_configs =
  names :: "string list"
  typeDefs :: "document list"
  resolvers :: resolver_map
  dataSources :: "string list"

record io_schema_def =
  schemaDef :: nat
  pkg :: string

record world =
  env :: "string \<Rightarrow> string option"
  localPackages :: "js_error + package_configs"
  getAllRemoteGQLSchemas :: "string option \<Rightarrow> js_error + io_schema_def list"
  documents :: "nat \<Rightarrow> document"
  introspectSchema :: "link \<Rightarrow> js_error + gql_schema"
  separator :: string
  listen :: "js_error + string"

definition readVar :: "world \<Rightarrow> string \<Rightarrow> string option" where
  "readVar w name = env w name"

text \<open>JavaScript truthiness of a value that is a string or undefined.\<close>

definition truthy :: "string option \<Rightarrow> bool" where
  "truthy v = (case v of None \<Rightarrow> False | Some s \<Rightarrow> s \<noteq> [])"

record local_extensions =
  executableSchema :: gql_schema
  localDataSources :: "string list"

record server_config =
  schema :: gql_schema
  serverDataSources :: "string list"
  schemaDirectives :: "string list"

text \<open>
  The observable steps of a run, in order. Console output that only reports what was found
  is left out.
\<close>

datatype event =
    VisitSchemaDirectives gql_schema
  | MergeSchemas "gql_schema list"
  | NewApolloServer server_config
  | Listen
  | ConsoleError js_error
  | ProcessExit nat

record run =
  trace :: "event list"
  outcome :: "js_error + server_config"

definition collectLocalExtensions :: "world \<Rightarrow> js_error + local_extensions" where
  "collectLocalExtensions w =
     (case localPackages w of
        Inl e \<Rightarrow> Inl e
      | Inr mergedLocalPkgConfigs \<Rightarrow>
          (case makeExecutableSchema (typeDefs mergedLocalPkgConfigs)
                  (resolvers mergedLocalPkgConfigs) of
             Inl e \<Rightarrow> Inl e
           | Inr es \<Rightarrow>
               Inr \<lparr>executableSchema = es,
                    localDataSources = dataSources mergedLocalPkgConfigs\<rparr>))"

text \<open>The extensible root type and the grammar of the directive (index.ts, lines 88-95).\<close>

definition baseTypeDefs :: document where
  "baseTypeDefs =
     [TypeDefinition ObjectType ''Query''
        [\<lparr>fieldName = ''ignoreMe'', typeName = ''String'', functionName = None\<rparr>],
      DirectiveDefinition ''function'']"

text \<open>The loop of lines 83-85: each descriptor's document is rewritten in place.\<close>

definition rewriteAll :: "string \<Rightarrow> io_schema_def list \<Rightarrow> (nat \<Rightarrow> document) \<Rightarrow> (nat \<Rightarrow> document)" where
  "rewriteAll sep ioSchemaDefs docs =
     fold (\<lambda>io h. h(schemaDef io :=
                      prependPkgNameToFunctionDirectives sep (h (schemaDef io)) (pkg io)))
       ioSchemaDefs docs"

text \<open>The array of lines 87-99.\<close>

definition ioTypeDefs :: "(nat \<Rightarrow> document) \<Rightarrow> io_schema_def list \<Rightarrow> document list" where
  "ioTypeDefs docs ioSchemaDefs = baseTypeDefs # map (\<lambda>io. docs (schemaDef io)) ioSchemaDefs"

definition collectRemoteExtensions :: "world \<Rightarrow> event list \<times> (js_error + gql_schema)" where
  "collectRemoteExtensions w =
     (let ioNamespace = readVar w ''ADOBE_IO_NAMESPACE'' in
      case getAllRemoteGQLSchemas w ioNamespace of
        Inl e \<Rightarrow> ([], Inl e)
      | Inr ioSchemaDefs \<Rightarrow>
          (let docs = rewriteAll (separator w) ioSchemaDefs (documents w) in
           case makeExecutableSchema (ioTypeDefs docs ioSchemaDefs) [] of
             Inl e \<Rightarrow> ([], Inl e)
           | Inr ioSchema \<Rightarrow>
               ([VisitSchemaDirectives ioSchema], Inr (visitSchemaDirectives ioSchema))))"

definition getExecutableFallbackSchema :: "world \<Rightarrow> js_error + gql_schema" where
  "getExecutableFallbackSchema w =
     (let uri = readVar w ''LEGACY_GRAPHQL_URL'';
          link = HttpLink uri
      in case introspectSchema w link of
           Inl e \<Rightarrow> Inl e
         | Inr rawMonolithSchema \<Rightarrow> Inr (makeRemoteExecutableSchema rawMonolithSchema link))"

text \<open>\<^verbatim>\<open>main().catch(err => { console.error(err); process.exit(1); })\<close>\<close>

definition failed :: "event list \<Rightarrow> js_error \<Rightarrow> run" where
  "failed evs err = \<lparr>trace = evs @ [ConsoleError err, ProcessExit 1], outcome = Inl err\<rparr>"

definition main :: "world \<Rightarrow> run" where
  "main w =
     (case collectLocalExtensions w of
        Inl e \<Rightarrow> failed [] e
      | Inr localExtensions \<Rightarrow>
          (case (if truthy (readVar w ''ENABLE_IO_FUNCTIONS'')
                 then (case collectRemoteExtensions w of
                         (evs, Inl e) \<Rightarrow> (evs, Inl e)
                       | (evs, Inr io) \<Rightarrow> (evs, Inr [executableSchema localExtensions, io]))
                 else ([], Inr [executableSchema localExtensions])) of
             (evs, Inl e) \<Rightarrow> failed evs e
           | (evs, Inr schemas1) \<Rightarrow>
               (case (if truthy (readVar w ''LEGACY_GRAPHQL_URL'')
                      then (case getExecutableFallbackSchema w of
                              Inl e \<Rightarrow> Inl e
                            | Inr m \<Rightarrow> Inr (schemas1 @ [m]))
                      else Inr schemas1) of
                  Inl e \<Rightarrow> failed evs e
                | Inr schemas \<Rightarrow>
                    (case mergeSchemas schemas of
                       Inl e \<Rightarrow> failed (evs @ [MergeSchemas schemas]) e
                     | Inr merged \<Rightarrow>
                         (let server = \<lparr>schema = merged,
                                        serverDataSources = localDataSources localExtensions,
                                        schemaDirectives = [''function'']\<rparr>;
                              evs' = evs @ [MergeSchemas schemas, NewApolloServer server, Listen]
                          in case listen w of
                               Inl e \<Rightarrow> failed evs' e
                             | Inr url \<Rightarrow> \<lparr>trace = evs', outcome = Inr server\<rparr>)))))"

text \<open>
  The vocabulary of the specification: the fragment each precedence tier contributes to a
  run, when that tier is switched on and its collection succeeds.
\<close>

datatype precedenceTier = LOCAL | REMOTE_FUNCTION | MONOLITH

definition fragment :: "world \<Rightarrow> precedenceTier \<Rightarrow> gql_schema option" where
  "fragment w tier =
     (case tier of
        LOCAL \<Rightarrow>
          (case collectLocalExtensions w of Inl e \<Rightarrow> None | Inr l \<Rightarrow> Some (executableSchema l))
      | REMOTE_FUNCTION \<Rightarrow>
          (if truthy (readVar w ''ENABLE_IO_FUNCTIONS'')
           then (case snd (collectRemoteExtensions w) of Inl e \<Rightarrow> None | Inr s \<Rightarrow> Some s)
           else None)
      | MONOLITH \<Rightarrow>
          (if truthy (readVar w ''LEGACY_GRAPHQL_URL'')
           then (case getExecutableFallbackSchema w of Inl e \<Rightarrow> None | Inr s \<Rightarrow> Some s)
           else None))"

definition defined_in :: "world \<Rightarrow> precedenceTier \<Rightarrow> string \<Rightarrow> string \<Rightarrow> field_def option" where
  "defined_in w tier t f = (case fragment w tier of None \<Rightarrow> None | Some s \<Rightarrow> field_of s t f)"

section \<open>The server preparation (prepareForServer)\<close>

text \<open>
  \<^verbatim>\<open>buildFrameworkSchema\<close> and \<^verbatim>\<open>contextBuilder\<close> are imported; they are parameters. A
  build may read and change the state of the process and may fail, so it is a function
  from the state before to its result and the state after.
\<close>

record ('g, 'c) prepared =
  prepared_schema :: 'g
  prepared_context :: 'c

definition prepareForServer ::
  "('s \<Rightarrow> (js_error + 'g) \<times> 's) \<Rightarrow> ('g \<Rightarrow> 'c) \<Rightarrow> 's \<Rightarrow> (js_error + ('g, 'c) prepared) \<times> 's" where
  "prepareForServer buildFrameworkSchema contextBuilder s0 =
     (case buildFrameworkSchema s0 of
        (Inl e, s1) \<Rightarrow> (Inl e, s1)
      | (Inr gateway, s1) \<Rightarrow>
          (case buildFrameworkSchema s1 of
             (Inl e, s2) \<Rightarrow> (Inl e, s2)
           | (Inr built, s2) \<Rightarrow>
               (Inr \<lparr>prepared_schema = built, prepared_context = contextBuilder gateway\<rparr>, s2)))"

section \<open>Observers of a composition\<close>

text \<open>
  The definition of a field that survives when the fragments are applied in array order:
  the one of the last fragment that defines it.
\<close>

fun last_defined :: "gql_schema list \<Rightarrow> string \<Rightarrow> string \<Rightarrow> field_def option" where
  "last_defined [] t f = None"
| "last_defined (s # ss) t f =
     (case last_defined ss t f of None \<Rightarrow> field_of s t f | Some d \<Rightarrow> Some d)"

text \<open>A tier's fragment as the elements it adds to the array of schemas.\<close>

definition present :: "gql_schema option \<Rightarrow> gql_schema list" where
  "present frag = (case frag of None \<Rightarrow> [] | Some s \<Rightarrow> [s])"

text \<open>The root type's placeholder field as the base declarations give it.\<close>

definition placeholder :: field_def where
  "placeholder = \<lparr>fieldType = ''String'', functionDirective = None, resolve = DefaultResolver\<rparr>"

text \<open>
  The names the function directives of a document carry, in document order: what the
  directive rewriter changes.
\<close>

fun functionNames_definition :: "definition_node \<Rightarrow> string list" where
  "functionNames_definition (TypeDefinition k n fs) = List.map_filter functionName fs"
| "functionNames_definition (TypeExtension n fs) = List.map_filter functionName fs"
| "functionNames_definition (DirectiveDefinition d) = []"

definition functionNames :: "document \<Rightarrow> string list" where
  "functionNames doc = concat (map functionNames_definition doc)"

text \<open>
  A schema puts the base declarations first: its first type is \<open>Query\<close>, the first field of
  that type is the placeholder, and its first directive is \<open>function\<close>.
\<close>

definition base_first :: "gql_schema \<Rightarrow> bool" where
  "base_first s =
     ((case typeMap s of
         [] \<Rightarrow> False
       | tn # rest \<Rightarrow>
           fst tn = ''Query''
           \<and> (case typeFields (snd tn) of
                 [] \<Rightarrow> False
               | fd # fds \<Rightarrow> fd = (''ignoreMe'', placeholder)))
      \<and> (case directives s of [] \<Rightarrow> False | d # ds \<Rightarrow> d = ''function''))"

section \<open>Example runs\<close>

text \<open>
  The end-to-end example of the specification: a local package that declares
  \<^verbatim>\<open>Query.hello: String\<close> with a resolver, the remote package \<open>pkgB\<close> that extends the root
  type with \<^verbatim>\<open>greet: String @function(name: "greet")\<close>, and a monolith whose schema has
  \<^verbatim>\<open>Query.hello: Int\<close> and \<^verbatim>\<open>Query.products\<close>. \<open>world_local\<close> switches neither optional tier on,
  \<open>world_remote\<close> the remote functions, \<open>world_all\<close> both.
\<close>

definition localA :: package_configs where
  "localA =
     \<lparr>names = [''hello''],
      typeDefs = [ [TypeDefinition ObjectType ''Query''
                      [\<lparr>fieldName = ''hello'', typeName = ''String'', functionName = None\<rparr>]] ],
      resolvers = [((''Query'', ''hello''), ''helloResolver'')],
      dataSources = []\<rparr>"

definition pkgB_document :: document where
  "pkgB_document =
     [TypeExtension ''Query''
        [\<lparr>fieldName = ''greet'', typeName = ''String'', functionName = Some ''greet''\<rparr>]]"

definition monolith_raw :: gql_schema where
  "monolith_raw =
     \<lparr>typeMap = [(''Query'', \<lparr>kind = ObjectType,
          typeFields = [(''hello'', \<lparr>fieldType = ''Int'', functionDirective = None, resolve = DefaultResolver\<rparr>),
                        (''products'', \<lparr>fieldType = ''Products'', functionDirective = None, resolve = DefaultResolver\<rparr>)]\<rparr>)],
      directives = []\<rparr>"

definition env_of :: "(string \<times> string) list \<Rightarrow> string \<Rightarrow> string option" where
  "env_of vars name = map_of vars name"

definition no_remote :: "string option \<Rightarrow> js_error + io_schema_def list" where
  "no_remote ns = Inr []"
definition remote_pkgB :: "string option \<Rightarrow> js_error + io_schema_def list" where
  "remote_pkgB ns = Inr [\<lparr>schemaDef = 0, pkg = ''pkgB''\<rparr>]"
definition docs_pkgB :: "nat \<Rightarrow> document" where
  "docs_pkgB r = (if r = 0 then pkgB_document else [])"
definition introspect_monolith :: "link \<Rightarrow> js_error + gql_schema" where
  "introspect_monolith l = Inr monolith_raw"

definition world_local :: world where
  "world_local = \<lparr>env = env_of [], localPackages = Inr localA, getAllRemoteGQLSchemas = no_remote,
     documents = docs_pkgB, introspectSchema = introspect_monolith, separator = ''::'',
     listen = Inr ''http://localhost:4000/''\<rparr>"

definition world_remote :: world where
  "world_remote = world_local\<lparr>env := env_of [(''ENABLE_IO_FUNCTIONS'', ''true''), (''ADOBE_IO_NAMESPACE'', ''ns'')],
      getAllRemoteGQLSchemas := remote_pkgB\<rparr>"

definition world_all :: world where
  "world_all = world_remote\<lparr>env := env_of [(''ENABLE_IO_FUNCTIONS'', ''true''), (''ADOBE_IO_NAMESPACE'', ''ns''),
       (''LEGACY_GRAPHQL_URL'', ''https://magento.test/graphql'')]\<rparr>"

definition local_schema_A :: gql_schema where
  "local_schema_A =
     \<lparr>typeMap =
        [(''Query'',
          \<lparr>kind = ObjectType,
           typeFields =
             [(''hello'', \<lparr>fieldType = ''String'', functionDirective = None,
                           resolve = LocalFunction ''helloResolver''\<rparr>)]\<rparr>)],
      directives = []\<rparr>"

definition io_schema_B :: gql_schema where
  "io_schema_B =
     \<lparr>typeMap =
        [(''Query'',
          \<lparr>kind = ObjectType,
           typeFields =
             [(''ignoreMe'', \<lparr>fieldType = ''String'', functionDirective = None,
                              resolve = DefaultResolver\<rparr>),
              (''greet'', \<lparr>fieldType = ''String'', functionDirective = Some ''pkgB::greet'',
                           resolve = DefaultResolver\<rparr>)]\<rparr>)],
      directives = [''function'']\<rparr>"

definition remote_schema_B :: gql_schema where
  "remote_schema_B =
     \<lparr>typeMap =
        [(''Query'',
          \<lparr>kind = ObjectType,
           typeFields =
             [(''ignoreMe'', \<lparr>fieldType = ''String'', functionDirective = None,
                              resolve = DefaultResolver\<rparr>),
              (''greet'', \<lparr>fieldType = ''String'', functionDirective = Some ''pkgB::greet'',
                           resolve = ExternalFunctionCall ''pkgB::greet''\<rparr>)]\<rparr>)],
      directives = [''function'']\<rparr>"

definition monolith_link :: link where
  "monolith_link = HttpLink (Some ''https://magento.test/graphql'')"

definition monolith_schema :: gql_schema where
  "monolith_schema =
     \<lparr>typeMap =
        [(''Query'',
          \<lparr>kind = ObjectType,
           typeFields =
             [(''hello'', \<lparr>fieldType = ''Int'', functionDirective = None,
                           resolve = RemoteDelegate monolith_link\<rparr>),
              (''products'', \<lparr>fieldType = ''Products'', functionDirective = None,
                              resolve = RemoteDelegate monolith_link\<rparr>)]\<rparr>)],
      directives = []\<rparr>"

definition merged_all :: gql_schema where
  "merged_all =
     \<lparr>typeMap =
        [(''Query'',
          \<lparr>kind = ObjectType,
           typeFields =
             [(''hello'', \<lparr>fieldType = ''Int'', functionDirective = None,
                           resolve = RemoteDelegate monolith_link\<rparr>),
              (''greet'', \<lparr>fieldType = ''String'', functionDirective = Some ''pkgB::greet'',
                           resolve = ExternalFunctionCall ''pkgB::greet''\<rparr>),
              (''ignoreMe'', \<lparr>fieldType = ''String'', functionDirective = None,
                              resolve = DefaultResolver\<rparr>),
              (''products'', \<lparr>fieldType = ''Products'', functionDirective = None,
                              resolve = RemoteDelegate monolith_link\<rparr>)]\<rparr>)],
      directives = [''function'']\<rparr>"

definition server_all :: server_config where
  "server_all = \<lparr>schema = merged_all, serverDataSources = [], schemaDirectives = [''function'']\<rparr>"

text \<open>
  What the composer returns in \<open>world_remote\<close>, and a second remote package, \<open>catalog\<close>,
  whose document annotates one of its two fields.
\<close>

definition merged_remote :: gql_schema where
  "merged_remote =
     \<lparr>typeMap =
        [(''Query'',
          \<lparr>kind = ObjectType,
           typeFields =
             [(''hello'', \<lparr>fieldType = ''String'', functionDirective = None,
                           resolve = LocalFunction ''helloResolver''\<rparr>),
              (''greet'', \<lparr>fieldType = ''String'', functionDirective = Some ''pkgB::greet'',
                           resolve = ExternalFunctionCall ''pkgB::greet''\<rparr>),
              (''ignoreMe'', \<lparr>fieldType = ''String'', functionDirective = None,
                              resolve = DefaultResolver\<rparr>)]\<rparr>)],
      directives = [''function'']\<rparr>"

definition server_remote :: server_config where
  "server_remote =
     \<lparr>schema = merged_remote, serverDataSources = [], schemaDirectives = [''function'']\<rparr>"

definition catalog_document :: document where
  "catalog_document =
     [TypeExtension ''Query''
        [\<lparr>fieldName = ''price'', typeName = ''Float'', functionName = Some ''getPrice''\<rparr>,
         \<lparr>fieldName = ''sku'', typeName = ''String'', functionName = None\<rparr>]]"

definition docs_two :: "nat \<Rightarrow> document" where
  "docs_two r = (if r = 0 then pkgB_document else if r = 1 then catalog_document else [])"

definition two_packages :: "io_schema_def list" where
  "two_packages = [\<lparr>schemaDef = 0, pkg = ''pkgB''\<rparr>, \<lparr>schemaDef = 1, pkg = ''catalog''\<rparr>]"

text \<open>Two descriptors, of the packages \<open>a\<close> and \<open>b\<close>, that refer to one document.\<close>

definition shared_packages :: "io_schema_def list" where
  "shared_packages = [\<lparr>schemaDef = 0, pkg = ''a''\<rparr>, \<lparr>schemaDef = 0, pkg = ''b''\<rparr>]"





definition refused :: "executor \<Rightarrow> js_error + gql_schema" where
  "refused ex = Inl (Error ''connect ECONNREFUSED 127.0.0.1:443'')"

definition hang_up :: "executor \<Rightarrow> js_error + gql_schema" where
  "hang_up ex = Inl (Error ''socket hang up'')"

definition example_config :: "string \<Rightarrow> string" where
  "example_config k = (if k = ''MONOLITH_GRAPHQL_URL'' then ''https://magento.test/graphql'' else [])"

definition counting_build :: "nat \<Rightarrow> (js_error + nat) \<times> nat" where
  "counting_build n = (Inr n, Suc n)"

text \<open>A schema build that changes the state and returns the same schema every time.\<close>

definition relabelling_build :: "nat \<Rightarrow> (js_error + nat) \<times> nat" where
  "relabelling_build n = (Inr 7, Suc n)"

section \<open>Properties of the composer\<close>

lemma map_of_map_keyed:
  "map_of (map (\<lambda>tn. (fst tn, g (fst tn) (snd tn))) xs) k = map_option (g k) (map_of xs k)"
  by (induction xs) auto

lemma getType_layer:
  assumes "layer acc nxt = Inr m"
  shows "getType m t =
           (case getType nxt t of
              None \<Rightarrow> getType acc t
            | Some nt \<Rightarrow> Some (mergeType (getType acc t) nt))"
proof -
  from assms have m: "typeMap m =
      AList.merge (typeMap acc)
        (map (\<lambda>tn. (fst tn, mergeType (getType acc (fst tn)) (snd tn))) (typeMap nxt))"
    by (auto simp: layer_def split: if_splits)
  show ?thesis
    unfolding getType_def m merge_conv' map_add_def map_of_map_keyed [where g = "\<lambda>k. mergeType (map_of (typeMap acc) k)"]
    by (simp add: getType_def split: option.splits)
qed

lemma field_of_layer:
  assumes "layer acc nxt = Inr m"
  shows "field_of m t f = (case field_of nxt t f of None \<Rightarrow> field_of acc t f | Some d \<Rightarrow> Some d)"
  unfolding field_of_def getType_layer [OF assms]
  by (simp add: mergeType_def merge_conv' map_add_def split: option.splits)

lemma field_of_compose:
  "compose acc fs = Inr m \<Longrightarrow>
     field_of m t f = (case last_defined fs t f of None \<Rightarrow> field_of acc t f | Some d \<Rightarrow> Some d)"
proof (induction fs arbitrary: acc)
  case Nil
  then show ?case by simp
next
  case (Cons s fs)
  then obtain acc' where l: "layer acc s = Inr acc'" and c: "compose acc' fs = Inr m"
    by (auto split: sum.splits)
  show ?case
    using Cons.IH [OF c] field_of_layer [OF l, of t f]
    by (simp split: option.splits)
qed

lemma field_of_mergeSchemas:
  "mergeSchemas frags = Inr m \<Longrightarrow> field_of m t f = last_defined frags t f"
  by (cases frags) (auto simp: mergeSchemas_def dest: field_of_compose [where t = t and f = f] split: option.splits)

lemma main_merged:
  assumes "outcome (main w) = Inr server"
  shows "mergeSchemas (present (fragment w LOCAL) @ present (fragment w REMOTE_FUNCTION)
                         @ present (fragment w MONOLITH)) = Inr (schema server)"
  using assms
  by (auto simp: main_def failed_def fragment_def present_def Let_def
           split: sum.splits if_splits prod.splits)

lemma main_tiers:
  assumes "outcome (main w) = Inr server"
  shows "fragment w LOCAL \<noteq> None"
    and "truthy (readVar w ''ENABLE_IO_FUNCTIONS'') \<Longrightarrow> fragment w REMOTE_FUNCTION \<noteq> None"
    and "truthy (readVar w ''LEGACY_GRAPHQL_URL'') \<Longrightarrow> fragment w MONOLITH \<noteq> None"
  using assms
  by (auto simp: main_def failed_def fragment_def Let_def
           split: sum.splits if_splits prod.splits)

lemma collectRemoteExtensions_binds:
  assumes "snd (collectRemoteExtensions w) = Inr s"
  shows "\<exists>ioSchema. fst (collectRemoteExtensions w) = [VisitSchemaDirectives ioSchema]
                    \<and> s = visitSchemaDirectives ioSchema"
  using assms by (auto simp: collectRemoteExtensions_def Let_def split: sum.splits)

lemma main_trace:
  assumes "outcome (main w) = Inr server"
  shows "trace (main w)
           = (if truthy (readVar w ''ENABLE_IO_FUNCTIONS'') then fst (collectRemoteExtensions w) else [])
             @ [MergeSchemas (present (fragment w LOCAL) @ present (fragment w REMOTE_FUNCTION)
                               @ present (fragment w MONOLITH)),
                NewApolloServer server,
                Listen]"
  using assms
  by (auto simp: main_def failed_def fragment_def present_def Let_def
           split: sum.splits if_splits prod.splits)

lemma main_schemaDirectives:
  assumes "outcome (main w) = Inr server"
  shows "schemaDirectives server = [''function'']"
  using assms
  by (auto simp: main_def failed_def Let_def split: sum.splits if_splits prod.splits)

section \<open>Properties of the schema builder and of the directive visitor\<close>

lemma defineTypes_getType:
  "defineTypes ds s = Inr s' \<Longrightarrow> getType s t = Some nt \<Longrightarrow> getType s' t = Some nt"
proof (induction ds s rule: defineTypes.induct)
  case (2 k n fs ds s)
  then show ?case
    by (auto simp: getType_def split: if_splits)
qed (auto split: if_splits simp: getType_def)

lemma extendTypes_field_of:
  "extendTypes ds s = Inr s' \<Longrightarrow> field_of s t f = Some d \<Longrightarrow> field_of s' t f = Some d"
proof (induction ds s rule: extendTypes.induct)
  case (2 n fs ds s)
  from "2.prems"(1) obtain nt where
    nt: "getType s n = Some nt" and
    ok: "\<not> (\<not> distinct (map fieldName fs)
            \<or> list_ex (\<lambda>fn. hasOwnProperty (typeFields nt) (fieldName fn)) fs)" and
    rest: "extendTypes ds
             (s\<lparr>typeMap :=
                  AList.update n (nt\<lparr>typeFields := typeFields nt @ map field_of_node fs\<rparr>)
                    (typeMap s)\<rparr>) = Inr s'"
    by (auto split: option.splits if_splits)
  have "field_of
          (s\<lparr>typeMap :=
               AList.update n (nt\<lparr>typeFields := typeFields nt @ map field_of_node fs\<rparr>)
                 (typeMap s)\<rparr>) t f = Some d"
    using "2.prems"(2) nt
    by (auto simp: field_of_def getType_def update_conv' split: option.splits)
  then show ?case
    by (rule "2.IH" [OF nt ok rest])
qed auto

lemma addResolvers_Nil: "addResolvers [] s = s"
proof -
  have "addResolver [] t = (\<lambda>fd. fd)" for t
    by (rule ext) (simp add: addResolver_def)
  then show ?thesis
    by (simp add: addResolvers_def)
qed

lemma field_of_visitSchemaDirectives:
  "field_of (visitSchemaDirectives s) t f = map_option bindFunction (field_of s t f)"
proof -
  have ty: "getType (visitSchemaDirectives s) t =
      map_option (\<lambda>nt. nt\<lparr>typeFields := map (\<lambda>fd. (fst fd, bindFunction (snd fd))) (typeFields nt)\<rparr>)
        (getType s t)"
    unfolding getType_def visitSchemaDirectives_def
    using map_of_map_keyed [where g = "\<lambda>k nt. nt\<lparr>typeFields := map (\<lambda>fd. (fst fd, bindFunction (snd fd))) (typeFields nt)\<rparr>"]
    by simp
  have fl: "map_of (map (\<lambda>fd. (fst fd, bindFunction (snd fd))) xs) f
              = map_option bindFunction (map_of xs f)" for xs
    by (rule map_of_map_keyed [where g = "\<lambda>k. bindFunction"])
  show ?thesis
    unfolding field_of_def ty
    by (simp add: fl split: option.splits)
qed

lemma remote_fragment_ignoreMe:
  assumes "snd (collectRemoteExtensions w) = Inr s"
  shows "field_of s ''Query'' ''ignoreMe'' = Some placeholder"
proof -
  from assms obtain ioSchemaDefs docs ioSchema where
    mk: "makeExecutableSchema (ioTypeDefs docs ioSchemaDefs) [] = Inr ioSchema"
    and s: "s = visitSchemaDirectives ioSchema"
    by (auto simp: collectRemoteExtensions_def Let_def split: sum.splits)
  let ?rest = "concat (map (\<lambda>io. docs (schemaDef io)) ioSchemaDefs)"
  let ?s0 = "\<lparr>typeMap = [(''Query'', \<lparr>kind = ObjectType, typeFields = [(''ignoreMe'', placeholder)]\<rparr>)],
              directives = [''function'']\<rparr>"
  from mk obtain s1 where d: "defineTypes ?rest ?s0 = Inr s1"
    and e: "extendTypes (baseTypeDefs @ ?rest) s1 = Inr ioSchema"
    by (auto simp: makeExecutableSchema_def ioTypeDefs_def baseTypeDefs_def Let_def getType_def
          field_of_node_def placeholder_def addResolvers_Nil split: sum.splits if_splits)
  have "getType ?s0 ''Query'' = Some \<lparr>kind = ObjectType, typeFields = [(''ignoreMe'', placeholder)]\<rparr>"
    by (simp add: getType_def)
  from defineTypes_getType [OF d this]
  have "field_of s1 ''Query'' ''ignoreMe'' = Some placeholder"
    by (simp add: field_of_def)
  from extendTypes_field_of [OF e this]
  have "field_of ioSchema ''Query'' ''ignoreMe'' = Some placeholder" .
  then show ?thesis
    by (simp add: s field_of_visitSchemaDirectives bindFunction_def placeholder_def)
qed

lemma defineTypes_base_first:
  "defineTypes ds s = Inr s' \<Longrightarrow> base_first s \<Longrightarrow> base_first s'"
proof (induction ds s rule: defineTypes.induct)
  case (2 k n fs ds s)
  from "2.prems"(1) have ok: "\<not> (getType s n \<noteq> None \<or> \<not> distinct (map fieldName fs))"
    and rest: "defineTypes ds
             (s\<lparr>typeMap := typeMap s @ [(n, \<lparr>kind = k, typeFields = map field_of_node fs\<rparr>)]\<rparr>) = Inr s'"
    by (auto split: if_splits)
  from "2.prems"(2)
  have "base_first (s\<lparr>typeMap := typeMap s @ [(n, \<lparr>kind = k, typeFields = map field_of_node fs\<rparr>)]\<rparr>)"
    by (auto simp: base_first_def split: list.splits)
  then show ?case
    by (rule "2.IH" [OF ok rest])
next
  case (4 d ds s)
  from "4.prems"(1) have ok: "\<not> d \<in> set (directives s)"
    and rest: "defineTypes ds (s\<lparr>directives := directives s @ [d]\<rparr>) = Inr s'"
    by (auto split: if_splits)
  from "4.prems"(2) have "base_first (s\<lparr>directives := directives s @ [d]\<rparr>)"
    by (auto simp: base_first_def split: list.splits)
  then show ?case
    by (rule "4.IH" [OF ok rest])
qed auto

lemma extendTypes_base_first:
  "extendTypes ds s = Inr s' \<Longrightarrow> base_first s \<Longrightarrow> base_first s'"
proof (induction ds s rule: extendTypes.induct)
  case (2 n fs ds s)
  from "2.prems"(1) obtain nt where
    nt: "getType s n = Some nt" and
    ok: "\<not> (\<not> distinct (map fieldName fs)
            \<or> list_ex (\<lambda>fn. hasOwnProperty (typeFields nt) (fieldName fn)) fs)" and
    rest: "extendTypes ds
             (s\<lparr>typeMap :=
                  AList.update n (nt\<lparr>typeFields := typeFields nt @ map field_of_node fs\<rparr>)
                    (typeMap s)\<rparr>) = Inr s'"
    by (auto split: option.splits if_splits)
  from "2.prems"(2) nt
  have "base_first
          (s\<lparr>typeMap :=
               AList.update n (nt\<lparr>typeFields := typeFields nt @ map field_of_node fs\<rparr>)
                 (typeMap s)\<rparr>)"
    by (auto simp: base_first_def getType_def split: list.splits if_splits)
  then show ?case
    by (rule "2.IH" [OF nt ok rest])
qed auto

lemma visitSchemaDirectives_base_first:
  "base_first s \<Longrightarrow> base_first (visitSchemaDirectives s)"
  by (auto simp: base_first_def visitSchemaDirectives_def bindFunction_def placeholder_def
           split: list.splits)

lemma makeExecutableSchema_base_first:
  assumes "makeExecutableSchema (baseTypeDefs # tds) [] = Inr s"
  shows "base_first s"
proof -
  let ?rest = "concat tds"
  let ?s0 = "\<lparr>typeMap = [(''Query'', \<lparr>kind = ObjectType, typeFields = [(''ignoreMe'', placeholder)]\<rparr>)],
              directives = [''function'']\<rparr>"
  from assms obtain s1 where d: "defineTypes ?rest ?s0 = Inr s1"
    and e: "extendTypes (baseTypeDefs @ ?rest) s1 = Inr s"
    by (auto simp: makeExecutableSchema_def baseTypeDefs_def Let_def getType_def
          field_of_node_def placeholder_def addResolvers_Nil split: sum.splits if_splits)
  have "base_first ?s0"
    by (simp add: base_first_def)
  from extendTypes_base_first [OF e defineTypes_base_first [OF d this]]
  show ?thesis .
qed

section \<open>Properties of the rewriting loop\<close>

lemma rewriteAll_at:
  "rewriteAll sep ioSchemaDefs docs r
     = fold (\<lambda>io doc. prependPkgNameToFunctionDirectives sep doc (pkg io))
         (filter (\<lambda>io. schemaDef io = r) ioSchemaDefs) (docs r)"
proof (induction ioSchemaDefs arbitrary: docs)
  case Nil
  show ?case by (simp add: rewriteAll_def)
next
  case (Cons d ds)
  let ?docs = "docs(schemaDef d := prependPkgNameToFunctionDirectives sep (docs (schemaDef d)) (pkg d))"
  have step: "rewriteAll sep (d # ds) docs = rewriteAll sep ds ?docs"
    by (simp add: rewriteAll_def)
  show ?case
    unfolding step Cons.IH [of ?docs]
    by simp
qed

lemma functionNames_prepend:
  "functionNames (prependPkgNameToFunctionDirectives sep doc pkgName)
     = map (\<lambda>n. pkgName @ sep @ n) (functionNames doc)"
proof -
  have f: "List.map_filter functionName (map (prependPkgName_field sep pkgName) fs)
             = map (\<lambda>n. pkgName @ sep @ n) (List.map_filter functionName fs)" for fs
    by (induction fs) (auto simp: List.map_filter_def prependPkgName_field_def)
  have d: "functionNames_definition (prependPkgName_definition sep pkgName dn)
             = map (\<lambda>n. pkgName @ sep @ n) (functionNames_definition dn)" for dn
    by (cases dn) (simp_all add: f)
  show ?thesis
    by (induction doc)
       (simp_all add: functionNames_def prependPkgNameToFunctionDirectives_def d)
qed

section \<open>The example runs, evaluated\<close>

lemmas example_defs = merged_remote_def server_remote_def localA_def pkgB_document_def monolith_raw_def env_of_def no_remote_def
  remote_pkgB_def docs_pkgB_def introspect_monolith_def world_local_def world_remote_def
  world_all_def local_schema_A_def io_schema_B_def remote_schema_B_def monolith_link_def
  monolith_schema_def merged_all_def server_all_def

lemmas run_defs = collectLocalExtensions_def collectRemoteExtensions_def
  getExecutableFallbackSchema_def makeExecutableSchema_def mergeSchemas_def layer_def
  conflicts_def mergeType_def readVar_def truthy_def getType_def addResolvers_def addResolver_def
  visitSchemaDirectives_def bindFunction_def ioTypeDefs_def rewriteAll_def baseTypeDefs_def
  prependPkgNameToFunctionDirectives_def prependPkgName_field_def makeRemoteExecutableSchema_def
  field_of_node_def hasOwnProperty_def failed_def AList.merge_def List.union_def
  List.insert_def Let_def

lemma local_world_local: "collectLocalExtensions world_local =
    Inr \<lparr>executableSchema = local_schema_A, localDataSources = []\<rparr>"
  by (simp add: example_defs run_defs)

lemma fragment_all_LOCAL: "fragment world_all LOCAL = Some local_schema_A"
  by (simp add: fragment_def example_defs run_defs)

lemma fragment_all_REMOTE: "fragment world_all REMOTE_FUNCTION = Some remote_schema_B"
  by (simp add: fragment_def example_defs run_defs)

lemma fragment_all_MONOLITH: "fragment world_all MONOLITH = Some monolith_schema"
  by (simp add: fragment_def example_defs run_defs)

lemma main_world_all:
  "main world_all =
     \<lparr>trace = [VisitSchemaDirectives io_schema_B,
               MergeSchemas [local_schema_A, remote_schema_B, monolith_schema],
               NewApolloServer server_all, Listen],
      outcome = Inr server_all\<rparr>"
  by (simp add: main_def example_defs run_defs)

lemma main_world_remote:
  "main world_remote =
     \<lparr>trace = [VisitSchemaDirectives io_schema_B,
               MergeSchemas [local_schema_A, remote_schema_B],
               NewApolloServer server_remote, Listen],
      outcome = Inr server_remote\<rparr>"
  by (simp add: main_def example_defs run_defs)

section \<open>Precedence of the tiers\<close>

text \<open>
  C1. When \<^verbatim>\<open>main\<close> brings the server up, the field \<open>(t, f)\<close> of the composed schema is the
  whole definition (type, directive and resolver) that the highest tier defining it gives:
  the monolith's if the monolith fragment defines it, otherwise the remote-function
  fragment's if that defines it, otherwise the local one's. Nothing of a lower tier's
  definition of the same field survives.
\<close>

theorem precedence_highest_tier_wins:
  assumes "outcome (main w) = Inr server"
  shows "field_of (schema server) t f =
           (case defined_in w MONOLITH t f of
              Some d \<Rightarrow> Some d
            | None \<Rightarrow>
                (case defined_in w REMOTE_FUNCTION t f of
                   Some d \<Rightarrow> Some d
                 | None \<Rightarrow> defined_in w LOCAL t f))"
  unfolding field_of_mergeSchemas [OF main_merged [OF assms]] defined_in_def
  by (simp add: present_def split: option.splits)

theorem precedence_highest_tier_wins_witness:
  "outcome (main world_all) = Inr server_all
   \<and> defined_in world_all LOCAL ''Query'' ''hello''
       = Some \<lparr>fieldType = ''String'', functionDirective = None,
               resolve = LocalFunction ''helloResolver''\<rparr>
   \<and> defined_in world_all MONOLITH ''Query'' ''hello''
       = Some \<lparr>fieldType = ''Int'', functionDirective = None,
               resolve = RemoteDelegate monolith_link\<rparr>
   \<and> field_of (schema server_all) ''Query'' ''hello''
       = Some \<lparr>fieldType = ''Int'', functionDirective = None,
               resolve = RemoteDelegate monolith_link\<rparr>"
proof -
  have h: "outcome (main world_all) = Inr server_all"
    by (simp add: main_world_all)
  have l: "defined_in world_all LOCAL ''Query'' ''hello''
       = Some \<lparr>fieldType = ''String'', functionDirective = None,
               resolve = LocalFunction ''helloResolver''\<rparr>"
    by (simp add: defined_in_def fragment_all_LOCAL field_of_def getType_def local_schema_A_def)
  have m: "defined_in world_all MONOLITH ''Query'' ''hello''
       = Some \<lparr>fieldType = ''Int'', functionDirective = None,
               resolve = RemoteDelegate monolith_link\<rparr>"
    by (simp add: defined_in_def fragment_all_MONOLITH field_of_def getType_def monolith_schema_def)
  show ?thesis
    using precedence_highest_tier_wins [OF h, of "''Query''" "''hello''"] h l m by simp
qed

section \<open>The fragments handed to the composer\<close>

text \<open>
  C7. Whenever a run reaches the composer, the array it hands over is not empty, its first
  element is the local fragment, and it is the local fragment, then the remote-function
  fragment, then the monolith fragment; the remote-function fragment is there exactly when
  \<^verbatim>\<open>ENABLE_IO_FUNCTIONS\<close> is truthy and the monolith fragment exactly when
  \<^verbatim>\<open>LEGACY_GRAPHQL_URL\<close> is.
\<close>

theorem fragments_handed_to_composer:
  assumes "MergeSchemas frags \<in> set (trace (main w))"
  shows "frags \<noteq> [] \<and> fragment w LOCAL = Some (hd frags)
         \<and> frags = present (fragment w LOCAL) @ present (fragment w REMOTE_FUNCTION)
                     @ present (fragment w MONOLITH)
         \<and> (fragment w REMOTE_FUNCTION \<noteq> None \<longleftrightarrow> truthy (readVar w ''ENABLE_IO_FUNCTIONS''))
         \<and> (fragment w MONOLITH \<noteq> None \<longleftrightarrow> truthy (readVar w ''LEGACY_GRAPHQL_URL''))"
  using assms
  by (auto simp: main_def failed_def fragment_def present_def Let_def collectRemoteExtensions_def
           split: sum.splits if_splits prod.splits)

theorem fragments_handed_to_composer_witness:
  "MergeSchemas [local_schema_A, remote_schema_B, monolith_schema] \<in> set (trace (main world_all))
   \<and> fragment world_all LOCAL = Some local_schema_A
   \<and> [local_schema_A, remote_schema_B, monolith_schema]
       = present (fragment world_all LOCAL) @ present (fragment world_all REMOTE_FUNCTION)
           @ present (fragment world_all MONOLITH)
   \<and> truthy (readVar world_all ''ENABLE_IO_FUNCTIONS'')
   \<and> truthy (readVar world_all ''LEGACY_GRAPHQL_URL'')"
proof -
  have h: "MergeSchemas [local_schema_A, remote_schema_B, monolith_schema]
             \<in> set (trace (main world_all))"
    by (simp add: main_world_all)
  show ?thesis
    using fragments_handed_to_composer [OF h] h
    by (simp add: fragment_all_REMOTE fragment_all_MONOLITH)
qed

section \<open>Composition of the local fragment alone\<close>

text \<open>
  C8. When neither optional tier is switched on and the local packages build, the run
  starts by handing the composer the local fragment alone, composing it succeeds and
  returns that fragment unchanged, and the server is created with exactly the local
  fragment as its schema; when the server then listens, the run ends with that server.
\<close>

theorem composition_identity_on_local_only:
  assumes "\<not> truthy (readVar w ''ENABLE_IO_FUNCTIONS'')"
      and "\<not> truthy (readVar w ''LEGACY_GRAPHQL_URL'')"
      and "collectLocalExtensions w = Inr l"
  shows "take 3 (trace (main w))
           = [MergeSchemas [executableSchema l],
              NewApolloServer \<lparr>schema = executableSchema l,
                               serverDataSources = localDataSources l,
                               schemaDirectives = [''function'']\<rparr>,
              Listen]
         \<and> MergeSchemas [executableSchema l] \<in> set (trace (main w))
         \<and> mergeSchemas [executableSchema l] = Inr (executableSchema l)
         \<and> outcome (main w)
           = (case listen w of
                Inl e \<Rightarrow> Inl e
              | Inr url \<Rightarrow> Inr \<lparr>schema = executableSchema l,
                                 serverDataSources = localDataSources l,
                                 schemaDirectives = [''function'']\<rparr>)
         \<and> (\<forall>server. outcome (main w) = Inr server \<longrightarrow> schema server = executableSchema l)"
  using assms
  by (auto simp: main_def failed_def mergeSchemas_def Let_def split: sum.splits)

theorem composition_identity_on_local_only_witness:
  "\<not> truthy (readVar world_local ''ENABLE_IO_FUNCTIONS'')
   \<and> \<not> truthy (readVar world_local ''LEGACY_GRAPHQL_URL'')
   \<and> collectLocalExtensions world_local
       = Inr \<lparr>executableSchema = local_schema_A, localDataSources = []\<rparr>
   \<and> listen world_local = Inr ''http://localhost:4000/''
   \<and> take 3 (trace (main world_local))
       = [MergeSchemas [local_schema_A],
          NewApolloServer \<lparr>schema = local_schema_A, serverDataSources = [],
                           schemaDirectives = [''function'']\<rparr>,
          Listen]
   \<and> outcome (main world_local)
       = Inr \<lparr>schema = local_schema_A, serverDataSources = [],
              schemaDirectives = [''function'']\<rparr>"
proof -
  have a: "\<not> truthy (readVar world_local ''ENABLE_IO_FUNCTIONS'')"
    and b: "\<not> truthy (readVar world_local ''LEGACY_GRAPHQL_URL'')"
    by (simp_all add: truthy_def readVar_def world_local_def env_of_def)
  have u: "listen world_local = Inr ''http://localhost:4000/''"
    by (simp add: world_local_def)
  note t = composition_identity_on_local_only [OF a b local_world_local]
  from t [THEN conjunct1]
  have tr: "take 3 (trace (main world_local))
       = [MergeSchemas [local_schema_A],
          NewApolloServer \<lparr>schema = local_schema_A, serverDataSources = [],
                           schemaDirectives = [''function'']\<rparr>,
          Listen]"
    by simp
  from t [THEN conjunct2, THEN conjunct2, THEN conjunct2, THEN conjunct1]
  have out: "outcome (main world_local)
       = Inr \<lparr>schema = local_schema_A, serverDataSources = [],
              schemaDirectives = [''function'']\<rparr>"
    by (simp add: u)
  from a b local_world_local u tr out show ?thesis
    by (intro conjI)
qed

section \<open>The placeholder field of the root type\<close>

text \<open>
  C10. Whenever remote functions are enabled and the server comes up, the remote-function
  fragment defines \<^verbatim>\<open>Query.ignoreMe\<close> of type \<open>String\<close>, without a function directive and
  with the default resolver, whatever the local and remote packages declare: it comes from
  the collector's base declarations. The composed schema exposes exactly this field unless
  the monolith fragment defines \<^verbatim>\<open>Query.ignoreMe\<close>, in which case the monolith's definition
  is exposed.
\<close>

theorem ignoreMe_exposed:
  assumes "truthy (readVar w ''ENABLE_IO_FUNCTIONS'')"
      and "outcome (main w) = Inr server"
  shows "defined_in w REMOTE_FUNCTION ''Query'' ''ignoreMe''
           = Some \<lparr>fieldType = ''String'', functionDirective = None, resolve = DefaultResolver\<rparr>
         \<and> field_of (schema server) ''Query'' ''ignoreMe''
           = (case defined_in w MONOLITH ''Query'' ''ignoreMe'' of
                Some d \<Rightarrow> Some d
              | None \<Rightarrow> Some \<lparr>fieldType = ''String'', functionDirective = None,
                               resolve = DefaultResolver\<rparr>)"
proof -
  from main_tiers(2) [OF assms(2) assms(1)] obtain s where
    r: "fragment w REMOTE_FUNCTION = Some s" by auto
  with assms(1) have "snd (collectRemoteExtensions w) = Inr s"
    by (auto simp: fragment_def split: sum.splits)
  from remote_fragment_ignoreMe [OF this]
  have rem: "defined_in w REMOTE_FUNCTION ''Query'' ''ignoreMe'' = Some placeholder"
    by (simp add: defined_in_def r)
  have "field_of (schema server) ''Query'' ''ignoreMe''
          = last_defined (present (fragment w LOCAL) @ present (fragment w REMOTE_FUNCTION)
                            @ present (fragment w MONOLITH)) ''Query'' ''ignoreMe''"
    by (rule field_of_mergeSchemas [OF main_merged [OF assms(2)]])
  with rem show ?thesis
    by (auto simp: defined_in_def present_def placeholder_def split: option.splits)
qed

theorem ignoreMe_exposed_witness:
  "truthy (readVar world_remote ''ENABLE_IO_FUNCTIONS'')
   \<and> outcome (main world_remote) = Inr server_remote
   \<and> defined_in world_remote MONOLITH ''Query'' ''ignoreMe'' = None
   \<and> defined_in world_remote LOCAL ''Query'' ''ignoreMe'' = None
   \<and> field_of (schema server_remote) ''Query'' ''ignoreMe''
       = Some \<lparr>fieldType = ''String'', functionDirective = None, resolve = DefaultResolver\<rparr>"
proof -
  have a: "truthy (readVar world_remote ''ENABLE_IO_FUNCTIONS'')"
    by (simp add: truthy_def readVar_def world_remote_def world_local_def env_of_def)
  have h: "outcome (main world_remote) = Inr server_remote"
    by (simp add: main_world_remote)
  have m: "defined_in world_remote MONOLITH ''Query'' ''ignoreMe'' = None"
    by (simp add: defined_in_def fragment_def truthy_def readVar_def world_remote_def
          world_local_def env_of_def)
  have l: "defined_in world_remote LOCAL ''Query'' ''ignoreMe'' = None"
    by (simp add: defined_in_def fragment_def field_of_def example_defs run_defs)
  show ?thesis
    using ignoreMe_exposed [OF a h] a h m l by simp
qed

section \<open>The order of the collector's type definitions\<close>

text \<open>
  C6. For every list of discovered packages, the remote-function collector builds its
  fragment from a sequence of definitions that starts with the two base declarations, the
  root type \<open>Query\<close> with its placeholder field and the grammar of the \<open>function\<close>
  directive, followed by the packages' rewritten declarations in discovery order; and in
  every fragment the collector returns the base declarations come first.
\<close>

theorem base_declarations_first:
  assumes "getAllRemoteGQLSchemas w (readVar w ''ADOBE_IO_NAMESPACE'') = Inr ioSchemaDefs"
  shows "take 2 (concat (ioTypeDefs (rewriteAll (separator w) ioSchemaDefs (documents w)) ioSchemaDefs))
           = [TypeDefinition ObjectType ''Query''
                [\<lparr>fieldName = ''ignoreMe'', typeName = ''String'', functionName = None\<rparr>],
              DirectiveDefinition ''function'']
         \<and> drop 2 (concat (ioTypeDefs (rewriteAll (separator w) ioSchemaDefs (documents w)) ioSchemaDefs))
           = concat (map (\<lambda>io. rewriteAll (separator w) ioSchemaDefs (documents w) (schemaDef io))
                       ioSchemaDefs)
         \<and> collectRemoteExtensions w
           = (case makeExecutableSchema
                     (ioTypeDefs (rewriteAll (separator w) ioSchemaDefs (documents w)) ioSchemaDefs) [] of
                Inl e \<Rightarrow> ([], Inl e)
              | Inr ioSchema \<Rightarrow>
                  ([VisitSchemaDirectives ioSchema], Inr (visitSchemaDirectives ioSchema)))
         \<and> (\<forall>s. snd (collectRemoteExtensions w) = Inr s \<longrightarrow> base_first s)"
proof (intro conjI allI impI)
  show c: "collectRemoteExtensions w
           = (case makeExecutableSchema
                     (ioTypeDefs (rewriteAll (separator w) ioSchemaDefs (documents w)) ioSchemaDefs) [] of
                Inl e \<Rightarrow> ([], Inl e)
              | Inr ioSchema \<Rightarrow>
                  ([VisitSchemaDirectives ioSchema], Inr (visitSchemaDirectives ioSchema)))"
    using assms by (simp add: collectRemoteExtensions_def Let_def)
  fix s
  assume "snd (collectRemoteExtensions w) = Inr s"
  with c obtain ioSchema where
    mk: "makeExecutableSchema
           (ioTypeDefs (rewriteAll (separator w) ioSchemaDefs (documents w)) ioSchemaDefs) []
           = Inr ioSchema"
    and s: "s = visitSchemaDirectives ioSchema"
    by (auto split: sum.splits)
  from mk have "base_first ioSchema"
    unfolding ioTypeDefs_def by (rule makeExecutableSchema_base_first)
  then show "base_first s"
    unfolding s by (rule visitSchemaDirectives_base_first)
qed (simp_all add: ioTypeDefs_def baseTypeDefs_def)

theorem base_declarations_first_witness:
  "getAllRemoteGQLSchemas world_remote (readVar world_remote ''ADOBE_IO_NAMESPACE'')
     = Inr [\<lparr>schemaDef = 0, pkg = ''pkgB''\<rparr>]
   \<and> snd (collectRemoteExtensions world_remote) = Inr remote_schema_B
   \<and> base_first remote_schema_B"
proof -
  have h: "getAllRemoteGQLSchemas world_remote (readVar world_remote ''ADOBE_IO_NAMESPACE'')
     = Inr [\<lparr>schemaDef = 0, pkg = ''pkgB''\<rparr>]"
    by (simp add: example_defs)
  have r: "snd (collectRemoteExtensions world_remote) = Inr remote_schema_B"
    by (simp add: example_defs run_defs)
  from base_declarations_first [OF h] r have "base_first remote_schema_B"
    by blast
  with h r show ?thesis
    by (intro conjI)
qed

section \<open>Directive rewriting, package by package\<close>

text \<open>
  C5, as the code has it. For every list of discovered packages and every package \<open>io\<close>
  that is the one descriptor of the list referring to its document, the rewritten document
  of \<open>io\<close> is the one obtained by rewriting \<open>io\<close> alone: it is its own document rewritten
  with its own package name, and each function name \<open>n\<close> in it has become
  \<open>pkg io @ sep @ n\<close>, whatever packages come before or after \<open>io\<close> in the list.
\<close>

theorem rewrite_depends_on_own_package_only:
  assumes "filter (\<lambda>other. schemaDef other = schemaDef io) ioSchemaDefs = [io]"
  shows "rewriteAll sep ioSchemaDefs docs (schemaDef io)
           = rewriteAll sep [io] docs (schemaDef io)
         \<and> rewriteAll sep ioSchemaDefs docs (schemaDef io)
           = prependPkgNameToFunctionDirectives sep (docs (schemaDef io)) (pkg io)
         \<and> functionNames (rewriteAll sep ioSchemaDefs docs (schemaDef io))
           = map (\<lambda>rawFunctionName. pkg io @ sep @ rawFunctionName)
               (functionNames (docs (schemaDef io)))"
  by (simp add: rewriteAll_at assms functionNames_prepend)

theorem rewrite_depends_on_own_package_only_witness:
  "filter (\<lambda>other. schemaDef other = schemaDef \<lparr>schemaDef = 1, pkg = ''catalog''\<rparr>) two_packages
     = [\<lparr>schemaDef = 1, pkg = ''catalog''\<rparr>]
   \<and> functionNames (docs_two 1) = [''getPrice'']
   \<and> functionNames (rewriteAll ''::'' two_packages docs_two 1) = [''catalog::getPrice'']
   \<and> rewriteAll ''::'' two_packages docs_two 1
       = rewriteAll ''::'' [\<lparr>schemaDef = 1, pkg = ''catalog''\<rparr>] docs_two 1"
proof -
  have h: "filter (\<lambda>other. schemaDef other = schemaDef \<lparr>schemaDef = 1, pkg = ''catalog''\<rparr>) two_packages
     = [\<lparr>schemaDef = 1, pkg = ''catalog''\<rparr>]"
    by (simp add: two_packages_def)
  have n: "functionNames (docs_two 1) = [''getPrice'']"
    by (simp add: functionNames_def docs_two_def catalog_document_def List.map_filter_def)
  note t = rewrite_depends_on_own_package_only [OF h, of "''::''" docs_two]
  from t [THEN conjunct2, THEN conjunct2] n
  have f: "functionNames (rewriteAll ''::'' two_packages docs_two 1) = [''catalog::getPrice'']"
    by simp
  from t [THEN conjunct1] have e: "rewriteAll ''::'' two_packages docs_two 1
       = rewriteAll ''::'' [\<lparr>schemaDef = 1, pkg = ''catalog''\<rparr>] docs_two 1"
    by simp
  from h n f e show ?thesis
    by (intro conjI)
qed

text \<open>
  The claim as stated fails for a list in which two packages refer to one document: the
  loop rewrites the document once for each, so the result for the second package carries
  the first package's name as well.
\<close>

theorem shared_document_rewritten_twice:
  "\<lparr>schemaDef = 0, pkg = ''b''\<rparr> \<in> set shared_packages
   \<and> functionNames (docs_pkgB 0) = [''greet'']
   \<and> functionNames (rewriteAll ''::'' shared_packages docs_pkgB 0) = [''b::a::greet'']
   \<and> functionNames (rewriteAll ''::'' [\<lparr>schemaDef = 0, pkg = ''b''\<rparr>] docs_pkgB 0) = [''b::greet'']"
  by (simp add: shared_packages_def rewriteAll_def docs_pkgB_def pkgB_document_def
        functionNames_def prependPkgNameToFunctionDirectives_def prependPkgName_field_def
        List.map_filter_def)

section \<open>Validation of the introspected monolith schema\<close>




section \<open>Failure of the introspection\<close>

text \<open>
  C4, as the code has it. When introspection fails, \<^verbatim>\<open>createMonolithProxySchema\<close> throws an
  \<open>Error\<close> whose message contains the endpoint URL, and no partial result; the error is the
  same whatever made the introspection fail.
\<close>

theorem introspection_failure_error:
  assumes "introspect (createMonolithExecutor (config ''MONOLITH_GRAPHQL_URL'')) = Inl cause"
      and "introspect' (createMonolithExecutor (config ''MONOLITH_GRAPHQL_URL'')) = Inl cause'"
  shows "(\<exists>m. snd (createMonolithProxySchema introspect config) = Inl (Error m)
              \<and> sublist (config ''MONOLITH_GRAPHQL_URL'') m)
         \<and> snd (createMonolithProxySchema introspect' config)
             = snd (createMonolithProxySchema introspect config)"
  using assms by (simp add: createMonolithProxySchema_def Let_def sublist_Cons_right)

theorem introspection_failure_error_witness:
  "refused (createMonolithExecutor (example_config ''MONOLITH_GRAPHQL_URL''))
     = Inl (Error ''connect ECONNREFUSED 127.0.0.1:443'')
   \<and> hang_up (createMonolithExecutor (example_config ''MONOLITH_GRAPHQL_URL''))
     = Inl (Error ''socket hang up'')
   \<and> snd (createMonolithProxySchema hang_up example_config)
     = snd (createMonolithProxySchema refused example_config)"
proof -
  have a: "refused (createMonolithExecutor (example_config ''MONOLITH_GRAPHQL_URL''))
     = Inl (Error ''connect ECONNREFUSED 127.0.0.1:443'')"
    by (simp add: refused_def)
  have b: "hang_up (createMonolithExecutor (example_config ''MONOLITH_GRAPHQL_URL''))
     = Inl (Error ''socket hang up'')"
    by (simp add: hang_up_def)
  from introspection_failure_error [where introspect = refused and config = example_config
      and introspect' = hang_up, OF a b] a b show ?thesis
    by (intro conjI) simp_all
qed

text \<open>
  The claim as stated fails: a refused connection and a dropped one give the same error,
  which mentions neither.
\<close>

theorem introspection_cause_not_carried:
  \<open>snd (createMonolithProxySchema refused example_config)
     = Inl (Error ''Failed introspecting remote Magento schema at "https://magento.test/graphql". Make sure that the MONOLITH_GRAPHQL_URL configuration is set to the correct value for your Magento instance'')
   \<and> snd (createMonolithProxySchema hang_up example_config)
     = Inl (Error ''Failed introspecting remote Magento schema at "https://magento.test/graphql". Make sure that the MONOLITH_GRAPHQL_URL configuration is set to the correct value for your Magento instance'')
   \<and> refused (createMonolithExecutor ''https://magento.test/graphql'')
       \<noteq> hang_up (createMonolithExecutor ''https://magento.test/graphql'')\<close>
  by (simp add: createMonolithProxySchema_def Let_def refused_def hang_up_def example_config_def)

section \<open>The two builds of prepareForServer\<close>

text \<open>
  C9, as the code has it. When \<^verbatim>\<open>prepareForServer\<close> returns, the schema build has run
  twice, the second time in the state the first left: the context builder got the result
  of the first build and the returned schema is the result of the second. A build is a
  function of the state it runs in, so it is deterministic; when in addition the first
  build has no side effect, that is, leaves the state as it found it, the two results are
  the same.
\<close>

theorem two_builds:
  assumes "prepareForServer buildFrameworkSchema contextBuilder s0 = (Inr p, s2)"
  shows "\<exists>gateway s1.
           buildFrameworkSchema s0 = (Inr gateway, s1)
           \<and> buildFrameworkSchema s1 = (Inr (prepared_schema p), s2)
           \<and> prepared_context p = contextBuilder gateway
           \<and> (s1 = s0 \<longrightarrow> prepared_schema p = gateway \<and> s2 = s0)"
  using assms
  by (auto simp: prepareForServer_def split: prod.splits sum.splits)

theorem two_builds_witness:
  "prepareForServer counting_build id 0
     = (Inr \<lparr>prepared_schema = 1, prepared_context = 0\<rparr>, 2)
   \<and> counting_build 0 = (Inr 0, 1)
   \<and> counting_build 1 = (Inr 1, 2)"
proof -
  have h: "prepareForServer counting_build id 0
     = (Inr \<lparr>prepared_schema = 1, prepared_context = 0\<rparr>, 2)"
    by (simp add: prepareForServer_def counting_build_def numeral_2_eq_2)
  from two_builds [OF h] have "counting_build 0 = (Inr 0, 1) \<and> counting_build 1 = (Inr 1, 2)"
    by (auto simp: counting_build_def)
  with h show ?thesis
    by simp
qed

text \<open>
  The claim as stated fails: a build that changes the state at every call and returns the
  same schema every time gives two coinciding results.
\<close>

theorem coinciding_builds_with_side_effect:
  "prepareForServer relabelling_build id 0
     = (Inr \<lparr>prepared_schema = 7, prepared_context = 7\<rparr>, 2)
   \<and> snd (relabelling_build 0) \<noteq> 0"
  by (simp add: prepareForServer_def relabelling_build_def numeral_2_eq_2)

section \<open>When the function directive is bound\<close>

text \<open>
  C3, as the code has it. In a run that brings the server up, when remote functions are
  enabled the directive visitor is applied inside the collector to the remote-function
  fragment's own schema, before the composer is called, and the bound schema is the
  fragment the composer gets; when they are not enabled nothing is bound before
  composition. After composition the merged schema is handed to the server together with
  the visitor of the \<open>function\<close> directive.
\<close>

theorem directive_binding_schedule:
  assumes "outcome (main w) = Inr server"
  shows "trace (main w)
           = (if truthy (readVar w ''ENABLE_IO_FUNCTIONS'') then fst (collectRemoteExtensions w) else [])
             @ [MergeSchemas (present (fragment w LOCAL) @ present (fragment w REMOTE_FUNCTION)
                               @ present (fragment w MONOLITH)),
                NewApolloServer server,
                Listen]
         \<and> (truthy (readVar w ''ENABLE_IO_FUNCTIONS'') \<longrightarrow>
              (\<exists>ioSchema. fst (collectRemoteExtensions w) = [VisitSchemaDirectives ioSchema]
                         \<and> fragment w REMOTE_FUNCTION = Some (visitSchemaDirectives ioSchema)))
         \<and> mergeSchemas (present (fragment w LOCAL) @ present (fragment w REMOTE_FUNCTION)
                           @ present (fragment w MONOLITH)) = Inr (schema server)
         \<and> schemaDirectives server = [''function'']"
proof (intro conjI impI)
  assume on: "truthy (readVar w ''ENABLE_IO_FUNCTIONS'')"
  from main_tiers(2) [OF assms on] obtain s where
    r: "fragment w REMOTE_FUNCTION = Some s" by auto
  with on have "snd (collectRemoteExtensions w) = Inr s"
    by (auto simp: fragment_def split: sum.splits)
  from collectRemoteExtensions_binds [OF this] r
  show "\<exists>ioSchema. fst (collectRemoteExtensions w) = [VisitSchemaDirectives ioSchema]
                   \<and> fragment w REMOTE_FUNCTION = Some (visitSchemaDirectives ioSchema)"
    by auto
qed (rule main_trace [OF assms] main_merged [OF assms] main_schemaDirectives [OF assms])+

theorem directive_binding_schedule_witness:
  "outcome (main world_remote) = Inr server_remote
   \<and> truthy (readVar world_remote ''ENABLE_IO_FUNCTIONS'')
   \<and> fst (collectRemoteExtensions world_remote) = [VisitSchemaDirectives io_schema_B]
   \<and> trace (main world_remote)
       = [VisitSchemaDirectives io_schema_B,
          MergeSchemas (present (fragment world_remote LOCAL)
                         @ present (fragment world_remote REMOTE_FUNCTION)
                         @ present (fragment world_remote MONOLITH)),
          NewApolloServer server_remote,
          Listen]"
proof -
  have h: "outcome (main world_remote) = Inr server_remote"
    by (simp add: main_world_remote)
  have a: "truthy (readVar world_remote ''ENABLE_IO_FUNCTIONS'')"
    by (simp add: truthy_def readVar_def world_remote_def world_local_def env_of_def)
  have c: "fst (collectRemoteExtensions world_remote) = [VisitSchemaDirectives io_schema_B]"
    by (simp add: example_defs run_defs)
  from directive_binding_schedule [OF h] a c h show ?thesis
    by simp
qed

text \<open>
  The claim as stated fails in the run of the end-to-end example: the first step of the
  run binds the directive on the remote-function fragment, the second composes.
\<close>

theorem binding_before_composition:
  "trace (main world_remote)
     = [VisitSchemaDirectives io_schema_B,
        MergeSchemas [local_schema_A, remote_schema_B],
        NewApolloServer server_remote,
        Listen]
   \<and> remote_schema_B = visitSchemaDirectives io_schema_B
   \<and> fragment world_remote REMOTE_FUNCTION = Some remote_schema_B"
  by (simp add: main_world_remote) (simp add: fragment_def example_defs run_defs)

end
